theory Spec2Isabelle
  imports Main "HOL-Library.Sublist"
begin

section \<open>The data model (models.py)\<close>

text \<open>
  Python strings are modelled as \<open>string\<close>, one \<open>char\<close> per code point, so the model
  covers text whose code points lie in U+0000..U+00FF.

  A value produced by \<open>json.loads\<close> is a \<open>jvalue\<close>; a JSON object is the list of its
  items (keys distinct), and \<open>JFloat\<close> carries the literal as it was written.
\<close>

datatype jvalue =
    JNull
  | JBool bool
  | JInt int
  | JFloat string
  | JString string
  | JArray "jvalue list"
  | JObject "(string \<times> jvalue) list"

text \<open>
  \<open>class Article(Base)\<close>: \<open>id\<close> is the integer primary key (\<open>a_id\<close> here, since
  \<open>id\<close> is the identity function of HOL), the other columns are non-null strings.
\<close>

record article =
  a_id :: nat
  url :: string
  title :: string
  publication_date :: string
  body_text :: string

text \<open>
  \<open>class AnalysisResult(Base)\<close>: \<open>id\<close> (\<open>r_id\<close>) is the primary key, \<open>article_id\<close> is
  unique and non-null. The three text columns hold whatever \<open>analysis.get(...)\<close> returned.
\<close>

record analysis_result =
  r_id :: nat
  article_id :: nat
  company_name :: jvalue
  ceo_name :: jvalue
  summary :: jvalue

text \<open>
  The module-level \<open>session\<close>: the rows of the two tables, and whether the session's
  transaction has been rolled back by a failed flush. In that state SQLAlchemy refuses
  every further statement until \<open>session.rollback()\<close> is called.
\<close>

record session =
  articles :: "article list"
  analysis_results :: "analysis_result list"
  needs_rollback :: bool

definition init_session :: session where
  "init_session = \<lparr>articles = [], analysis_results = [], needs_rollback = False\<rparr>"

section \<open>The world outside the program\<close>

text \<open>
  A parsed page, as \<open>BeautifulSoup(response.text, 'html.parser')\<close> returns it: text
  nodes, comments, and elements with their tag name, the values of their \<open>class\<close>
  attribute and their children.
\<close>

datatype node =
    Text string
  | Comment string
  | Element string "string list" "node list"

datatype http_result =
    RequestFailed
  | Response nat "node list"

text \<open>
  The reply of the completion service: the request may raise, otherwise there is a
  status code and \<open>response.json()["choices"][0]["message"]["content"]\<close>, which is
  \<open>None\<close> when the envelope does not have that shape or the content is not a string.
\<close>

datatype post_result =
    PostFailed
  | PostResponse nat "string option"

text \<open>
  What one call of \<open>fetch_and_store_article\<close> meets: the web, the completion service,
  \<open>json.loads\<close> on a string that starts with an opening brace (an object or
  \<open>JSONDecodeError\<close>), and whether the database fails at one of the four statements
  for a reason of its own (connection lost, database locked).
\<close>

record world =
  requests_get :: "string \<Rightarrow> http_result"
  requests_post :: "string \<Rightarrow> post_result"
  json_loads :: "string \<Rightarrow> (string \<times> jvalue) list option"
  query_article_fault :: bool
  query_analysis_fault :: bool
  insert_article_fault :: bool
  insert_analysis_fault :: bool

section \<open>Python and library functions used by scraper.py\<close>

text \<open>\<open>str.isspace\<close> for one code point below U+0100.\<close>

definition isspace :: "char \<Rightarrow> bool" where
  "isspace c = (let n = (of_char c :: nat) in
     (9 \<le> n \<and> n \<le> 13) \<or> (28 \<le> n \<and> n \<le> 32) \<or> n = 133 \<or> n = 160)"

definition strip :: "string \<Rightarrow> string" where
  "strip s = rev (dropWhile isspace (rev (dropWhile isspace s)))"

text \<open>\<open>sep.join(xs)\<close>\<close>

fun join :: "string \<Rightarrow> string list \<Rightarrow> string" where
  "join sep [] = []"
| "join sep [x] = x"
| "join sep (x # y # ys) = x @ sep @ join sep (y # ys)"

text \<open>\<open>Response.raise_for_status\<close> raises for the client and server error codes.\<close>

definition raises_for_status :: "nat \<Rightarrow> bool" where
  "raises_for_status status = (400 \<le> status \<and> status < 600)"

text \<open>All nodes below a node, in document order.\<close>

fun descendants :: "node \<Rightarrow> node list" where
  "descendants (Element t cs ch) = concat (map (\<lambda>c. c # descendants c) ch)"
| "descendants (Text s) = []"
| "descendants (Comment s) = []"

definition soup_nodes :: "node list \<Rightarrow> node list" where
  "soup_nodes soup = concat (map (\<lambda>c. c # descendants c) soup)"

text \<open>
  The match of \<open>find(name, class_=c)\<close>: the tag name is equal, and the wanted class is
  one of the element's classes or is all of them joined by single spaces.
\<close>

fun matches :: "string \<Rightarrow> string option \<Rightarrow> node \<Rightarrow> bool" where
  "matches name None (Element t cs ch) = (t = name)"
| "matches name (Some c) (Element t cs ch) = (t = name \<and> (c \<in> set cs \<or> join '' '' cs = c))"
| "matches name c (Text s) = False"
| "matches name c (Comment s) = False"

text \<open>\<open>tag.find_all(name, class_=c)\<close> and \<open>soup.find(name, class_=c)\<close>\<close>

definition find_all :: "string \<Rightarrow> string option \<Rightarrow> node list \<Rightarrow> node list" where
  "find_all name c nodes = filter (matches name c) nodes"

definition soup_find :: "string \<Rightarrow> string option \<Rightarrow> node list \<Rightarrow> node option" where
  "soup_find name c nodes = (case find_all name c nodes of [] \<Rightarrow> None | x # xs \<Rightarrow> Some x)"

text \<open>
  \<open>tag.get_text(strip=True)\<close>: the text strings below the tag (comments are left out),
  each stripped, the empty ones dropped, concatenated.
\<close>

fun all_strings :: "node \<Rightarrow> string list" where
  "all_strings (Text s) = [s]"
| "all_strings (Comment s) = []"
| "all_strings (Element t cs ch) = concat (map all_strings ch)"

definition get_text :: "node \<Rightarrow> string" where
  "get_text n = concat (filter (\<lambda>s. s \<noteq> []) (map strip (all_strings n)))"

text \<open>
  \<open>re.search(r'\{.*\}', reply, re.DOTALL)\<close>: the leftmost match starts at the first
  opening brace that has a closing brace after it and, the star being greedy, ends at
  the last closing brace.
\<close>

definition json_match :: "string \<Rightarrow> string option" where
  "json_match reply =
     (let rest = dropWhile (\<lambda>c. c \<noteq> CHR 0x7B) reply;
          span = rev (dropWhile (\<lambda>c. c \<noteq> CHR 0x7D) (rev rest))
      in if span = [] then None else Some span)"

text \<open>
  What sqlite3 accepts as a statement parameter: \<open>None\<close>, \<open>str\<close>, \<open>float\<close> and an
  \<open>int\<close> (or \<open>bool\<close>) of at most 64 bits; a list or a dict is refused.
\<close>

fun bindable :: "jvalue \<Rightarrow> bool" where
  "bindable JNull = True"
| "bindable (JBool b) = True"
| "bindable (JInt i) = (- (2 ^ 63) \<le> i \<and> i < 2 ^ 63)"
| "bindable (JFloat f) = True"
| "bindable (JString s) = True"
| "bindable (JArray xs) = False"
| "bindable (JObject kvs) = False"

text \<open>The integer primary key of a new row: one more than the largest in the table.\<close>

definition next_id :: "nat list \<Rightarrow> nat" where
  "next_id ids = Suc (fold max ids 0)"

section \<open>The session (SQLAlchemy over SQLite)\<close>

text \<open>A statement either raises or returns.\<close>

datatype 'a db = Raised | Returned 'a

text \<open>\<open>session.add(x); session.commit()\<close> either commits the row or fails in the flush.\<close>

datatype commit_result = FlushFailed session | Committed nat session

text \<open>\<open>session.query(Article).filter_by(url=url).first()\<close>\<close>

definition query_article :: "world \<Rightarrow> session \<Rightarrow> string \<Rightarrow> article option db" where
  "query_article w s u =
     (if needs_rollback s \<or> query_article_fault w then Raised
      else Returned (List.find (\<lambda>a. url a = u) (articles s)))"

text \<open>\<open>session.query(AnalysisResult).filter_by(article_id=i).first()\<close>\<close>

definition query_analysis :: "world \<Rightarrow> session \<Rightarrow> nat \<Rightarrow> analysis_result option db" where
  "query_analysis w s i =
     (if needs_rollback s \<or> query_analysis_fault w then Raised
      else Returned (List.find (\<lambda>r. article_id r = i) (analysis_results s)))"

text \<open>
  \<open>session.add(article); session.commit()\<close>. The INSERT fails when the session awaits a
  rollback, when the database fails, or when the url is already in the table (the
  column is unique). A failed flush rolls the database transaction back, removes the
  pending object from the session and leaves the session waiting for
  \<open>session.rollback()\<close>. Nothing is pending outside such a pair, so the pair is one
  step of the model.
\<close>

definition add_commit_article ::
    "world \<Rightarrow> session \<Rightarrow> string \<Rightarrow> string \<Rightarrow> string \<Rightarrow> string \<Rightarrow> commit_result" where
  "add_commit_article w s u ttl pub_date body =
     (if needs_rollback s \<or> insert_article_fault w \<or> u \<in> set (map url (articles s))
      then FlushFailed (s\<lparr>needs_rollback := True\<rparr>)
      else let i = next_id (map a_id (articles s)) in
        Committed i (s\<lparr>articles := articles s @
          [\<lparr>a_id = i, url = u, title = ttl, publication_date = pub_date, body_text = body\<rparr>]\<rparr>))"

text \<open>
  \<open>session.add(analysis_result); session.commit()\<close>. Here the INSERT also fails when
  the article already has a result (\<open>article_id\<close> is unique) or a value cannot be bound.
  SQLite does not check the foreign key unless asked to, and the program does not ask.
\<close>

definition add_commit_analysis ::
    "world \<Rightarrow> session \<Rightarrow> nat \<Rightarrow> jvalue \<Rightarrow> jvalue \<Rightarrow> jvalue \<Rightarrow> commit_result" where
  "add_commit_analysis w s i company ceo summ =
     (if needs_rollback s \<or> insert_analysis_fault w
         \<or> i \<in> set (map article_id (analysis_results s))
      then FlushFailed (s\<lparr>needs_rollback := True\<rparr>)
      else if bindable company \<and> bindable ceo \<and> bindable summ
      then let j = next_id (map r_id (analysis_results s)) in
        Committed j (s\<lparr>analysis_results := analysis_results s @
          [\<lparr>r_id = j, article_id = i, company_name = company, ceo_name = ceo,
            summary = summ\<rparr>]\<rparr>)
      else FlushFailed (s\<lparr>needs_rollback := True\<rparr>))"

text \<open>\<open>session.rollback()\<close>\<close>

definition rollback :: "session \<Rightarrow> session" where
  "rollback s = s\<lparr>needs_rollback := False\<rparr>"

text \<open>\<open>analysis.get(key, "")\<close>\<close>

definition dict_get :: "(string \<times> jvalue) list \<Rightarrow> string \<Rightarrow> jvalue" where
  "dict_get analysis k = (case map_of analysis k of None \<Rightarrow> JString [] | Some v \<Rightarrow> v)"

section \<open>scraper.py\<close>

text \<open>The prompt that \<open>analyze_article\<close> builds around the body text.\<close>

definition prompt :: "string \<Rightarrow> string" where
  "prompt body =
     ''Extract the following information from the article below:'' @ [CHR 0x0A] @
     ''- Company Name'' @ [CHR 0x0A] @
     ''- CEO Name'' @ [CHR 0x0A] @
     ''- Summary'' @ [CHR 0x0A, CHR 0x0A] @
     ''Article:'' @ [CHR 0x0A] @
     body @ [CHR 0x0A, CHR 0x0A] @
     ''Please provide the information in the following JSON format exactly as shown:''
       @ [CHR 0x0A] @
     [CHR 0x7B, CHR 0x0A] @
     ''  '' @ [CHR 0x22] @ ''company_name'' @ [CHR 0x22] @ '': '' @ [CHR 0x22]
       @ ''Company Name'' @ [CHR 0x22] @ '','' @ [CHR 0x0A] @
     ''  '' @ [CHR 0x22] @ ''ceo_name'' @ [CHR 0x22] @ '': '' @ [CHR 0x22]
       @ ''CEO Name'' @ [CHR 0x22] @ '','' @ [CHR 0x0A] @
     ''  '' @ [CHR 0x22] @ ''summary'' @ [CHR 0x22] @ '': '' @ [CHR 0x22]
       @ ''Summary of the article.'' @ [CHR 0x22] @ [CHR 0x0A] @
     [CHR 0x7D, CHR 0x0A] @
     ''Ensure that all fields are filled accurately.''"

text \<open>
  \<open>analyze_article(body_text)\<close>: every exception is caught and gives \<open>None\<close>; so does a
  reply without a braces span.
\<close>

definition analyze_article :: "world \<Rightarrow> string \<Rightarrow> (string \<times> jvalue) list option" where
  "analyze_article w body =
     (case requests_post w (prompt body) of
        PostFailed \<Rightarrow> None
      | PostResponse status content \<Rightarrow>
          if raises_for_status status then None
          else (case content of
                  None \<Rightarrow> None
                | Some c \<Rightarrow>
                    (case json_match (strip c) of
                       None \<Rightarrow> None
                     | Some json_str \<Rightarrow> json_loads w json_str)))"

text \<open>
  The three extraction blocks of \<open>fetch_and_store_article\<close>: title, publication date
  and body, each returning from the function when its tag is not found.
\<close>

definition extraction :: "node list \<Rightarrow> (string \<times> string \<times> string) option" where
  "extraction soup =
     (case soup_find ''h1'' None (soup_nodes soup) of
        None \<Rightarrow> None
      | Some title_tag \<Rightarrow>
          (case soup_find ''span'' (Some ''d-ib mr-05'') (soup_nodes soup) of
             None \<Rightarrow> None
           | Some pub_date_tag \<Rightarrow>
               (case soup_find ''div'' (Some ''kInstance-Body instance-box-mb'')
                       (soup_nodes soup) of
                  None \<Rightarrow> None
                | Some body_div \<Rightarrow>
                    (let paragraphs = find_all ''p'' None (descendants body_div) in
                     if paragraphs = [] then None
                     else Some (get_text title_tag, get_text pub_date_tag,
                                join [CHR 0x0A, CHR 0x0A] (map get_text paragraphs))))))"

text \<open>
  \<open>fetch_and_store_article(url)\<close>: the value returned (\<open>None\<close> for every bare
  \<open>return\<close> and for the exceptions caught at the end) and the session afterwards.
  \<open>if analysis:\<close> is false for \<open>None\<close> and for the empty dict.
\<close>

definition fetch_and_store_article :: "world \<Rightarrow> string \<Rightarrow> session \<Rightarrow> nat option \<times> session" where
  "fetch_and_store_article w u s =
     (case requests_get w u of
        RequestFailed \<Rightarrow> (None, s)
      | Response status soup \<Rightarrow>
          if raises_for_status status then (None, s)
          else (case extraction soup of
            None \<Rightarrow> (None, s)
          | Some (ttl, pub_date, body) \<Rightarrow>
              (case query_article w s u of
                 Raised \<Rightarrow> (None, s)
               | Returned (Some existing_article) \<Rightarrow>
                   (case query_analysis w s (a_id existing_article) of
                      Raised \<Rightarrow> (None, s)
                    | Returned (Some existing_analysis) \<Rightarrow> (Some (a_id existing_article), s)
                    | Returned None \<Rightarrow>
                        (case analyze_article w body of
                           None \<Rightarrow> (Some (a_id existing_article), s)
                         | Some analysis \<Rightarrow>
                             if analysis = [] then (Some (a_id existing_article), s)
                             else (case add_commit_analysis w s (a_id existing_article)
                                     (dict_get analysis ''company_name'')
                                     (dict_get analysis ''ceo_name'')
                                     (dict_get analysis ''summary'') of
                                FlushFailed s' \<Rightarrow> (None, s')
                              | Committed j s' \<Rightarrow> (Some (a_id existing_article), s'))))
               | Returned None \<Rightarrow>
                   (case add_commit_article w s u ttl pub_date body of
                      FlushFailed s1 \<Rightarrow> (None, rollback s1)
                    | Committed new_id s1 \<Rightarrow>
                        (case analyze_article w body of
                           None \<Rightarrow> (Some new_id, s1)
                         | Some analysis \<Rightarrow>
                             if analysis = [] then (Some new_id, s1)
                             else (case add_commit_analysis w s1 new_id
                                     (dict_get analysis ''company_name'')
                                     (dict_get analysis ''ceo_name'')
                                     (dict_get analysis ''summary'') of
                                FlushFailed s2 \<Rightarrow> (None, rollback s2)
                              | Committed j s2 \<Rightarrow> (Some new_id, s2)))))))"

text \<open>
  The loop of the main block: one call per URL, in order. Each call meets the world as
  it is at that moment, so a run is a list of worlds paired with URLs.
\<close>

fun main_loop :: "(world \<times> string) list \<Rightarrow> session \<Rightarrow> nat option list \<times> session" where
  "main_loop [] s = ([], s)"
| "main_loop ((w, u) # rest) s =
     (let (article_id', s') = fetch_and_store_article w u s;
          (ids, s'') = main_loop rest s'
      in (article_id' # ids, s''))"

text \<open>The states of the store that calls of \<open>fetch_and_store_article\<close> can reach.\<close>

inductive reachable :: "session \<Rightarrow> bool" where
  reachable_init: "reachable init_session"
| reachable_step: "reachable s \<Longrightarrow> reachable (snd (fetch_and_store_article w u s))"

section \<open>Properties of a store\<close>

text \<open>
  Every analysis result belongs to a stored article, and no two analysis results
  belong to the same article.
\<close>

definition linked :: "session \<Rightarrow> bool" where
  "linked s =
     ((\<forall>r \<in> set (analysis_results s). article_id r \<in> set (map a_id (articles s)))
      \<and> distinct (map article_id (analysis_results s)))"

section \<open>Concrete pages, replies, worlds and stores\<close>

definition quoted :: "string \<Rightarrow> string" where
  "quoted s = CHR 0x22 # s @ [CHR 0x22]"

definition text_ab :: string where
  "text_ab = ''A.'' @ [CHR 0x0A, CHR 0x0A] @ ''B.''"

text \<open>A page with the three tags; the second paragraph and the date are padded.\<close>

definition page_ab :: "node list" where
  "page_ab =
     [Element ''h1'' [] [Text ''Test Title''],
      Element ''span'' [''d-ib'', ''mr-05''] [Text '' 2024-12-01 ''],
      Element ''div'' [''kInstance-Body'', ''instance-box-mb'']
        [Element ''p'' [] [Text ''A.''], Text [CHR 0x0A], Element ''p'' [] [Text '' B. '']]]"

definition json_acme :: string where
  "json_acme = ''{'' @ quoted ''company_name'' @ '':'' @ quoted ''Acme'' @ '','' @
     quoted ''ceo_name'' @ '':'' @ quoted ''Jane Doe'' @ '','' @
     quoted ''summary'' @ '':'' @ quoted ''...'' @ ''}''"

definition reply_acme :: string where
  "reply_acme = ''Here is the result: '' @ json_acme"

definition dict_acme :: "(string \<times> jvalue) list" where
  "dict_acme = [(''company_name'', JString ''Acme''), (''ceo_name'', JString ''Jane Doe''),
     (''summary'', JString ''...'')]"

definition json_ceo_only :: string where
  "json_ceo_only = ''{'' @ quoted ''ceo_name'' @ '':'' @ quoted ''Jane Doe'' @ ''}''"

definition json_oldco :: string where
  "json_oldco = ''{'' @ quoted ''company_name'' @ '':'' @ quoted ''OldCo'' @ ''}''"

text \<open>\<open>json.loads\<close> on the strings that the examples use.\<close>

definition loads_example :: "string \<Rightarrow> (string \<times> jvalue) list option" where
  "loads_example j =
     (if j = json_acme then Some dict_acme
      else if j = json_ceo_only then Some [(''ceo_name'', JString ''Jane Doe'')]
      else if j = json_oldco then Some [(''company_name'', JString ''OldCo'')]
      else if j = ''{}'' then Some []
      else None)"

text \<open>Every request succeeds, the service answers with the Acme object, no fault.\<close>

definition world_ok :: world where
  "world_ok = \<lparr>requests_get = (\<lambda>u. Response 200 page_ab),
     requests_post = (\<lambda>p. PostResponse 200 (Some reply_acme)),
     json_loads = loads_example,
     query_article_fault = False, query_analysis_fault = False,
     insert_article_fault = False, insert_analysis_fault = False\<rparr>"

definition url_1 :: string where
  "url_1 = ''https://www.bizcommunity.com/article/one''"

definition url_2 :: string where
  "url_2 = ''https://www.bizcommunity.com/article/two''"

definition article_1 :: article where
  "article_1 = \<lparr>a_id = 1, url = url_1, title = ''Test Title'',
     publication_date = ''2024-12-01'', body_text = text_ab\<rparr>"

definition analysis_1 :: analysis_result where
  "analysis_1 = \<lparr>r_id = 1, article_id = 1, company_name = JString ''Acme'',
     ceo_name = JString ''Jane Doe'', summary = JString ''...''\<rparr>"

text \<open>The store after \<open>url_1\<close> has been processed in \<open>world_ok\<close>.\<close>

definition store_done :: session where
  "store_done = \<lparr>articles = [article_1], analysis_results = [analysis_1],
     needs_rollback = False\<rparr>"

text \<open>The page cannot be found.\<close>

definition world_404 :: world where
  "world_404 = world_ok\<lparr>requests_get := (\<lambda>u. Response 404 [])\<rparr>"

text \<open>A page without the date span.\<close>

definition page_no_date :: "node list" where
  "page_no_date =
     [Element ''h1'' [] [Text ''Test Title''],
      Element ''div'' [''kInstance-Body'', ''instance-box-mb'']
        [Element ''p'' [] [Text ''A.'']]]"

definition world_no_date :: world where
  "world_no_date = world_ok\<lparr>requests_get := (\<lambda>u. Response 200 page_no_date)\<rparr>"

text \<open>
  A page whose body container has one child, a \<open>div\<close>, which holds the only paragraph.
\<close>

definition page_nested :: "node list" where
  "page_nested =
     [Element ''h1'' [] [Text ''Test Title''],
      Element ''span'' [''d-ib'', ''mr-05''] [Text ''2024-12-01''],
      Element ''div'' [''kInstance-Body'', ''instance-box-mb'']
        [Element ''div'' [''wrap''] [Element ''p'' [] [Text ''Deep.'']]]]"

definition world_nested :: world where
  "world_nested = world_ok\<lparr>requests_get := (\<lambda>u. Response 200 page_nested)\<rparr>"

text \<open>The service answers without any braces.\<close>

definition world_no_json :: world where
  "world_no_json =
     world_ok\<lparr>requests_post := (\<lambda>p. PostResponse 200 (Some ''I cannot help with that.''))\<rparr>"

text \<open>The service answers with an empty object, or with an object that has one key.\<close>

definition world_empty_object :: world where
  "world_empty_object = world_ok\<lparr>requests_post := (\<lambda>p. PostResponse 200 (Some ''{}''))\<rparr>"

definition world_ceo_only :: world where
  "world_ceo_only =
     world_ok\<lparr>requests_post := (\<lambda>p. PostResponse 200 (Some json_ceo_only))\<rparr>"

text \<open>The article of \<open>url_1\<close> as an earlier run stored it, not analysed yet.\<close>

definition article_old :: article where
  "article_old = \<lparr>a_id = 1, url = url_1, title = ''Old Title'',
     publication_date = ''2024-11-30'', body_text = ''Old text.''\<rparr>"

definition store_old :: session where
  "store_old = \<lparr>articles = [article_old], analysis_results = [], needs_rollback = False\<rparr>"

text \<open>The service answers about OldCo for the stored text and about Acme otherwise.\<close>

definition world_changed :: world where
  "world_changed = world_ok\<lparr>requests_post :=
     (\<lambda>p. if p = prompt ''Old text.'' then PostResponse 200 (Some json_oldco)
          else PostResponse 200 (Some reply_acme))\<rparr>"

text \<open>The database fails when the analysis result is inserted.\<close>

definition world_insert_fault :: world where
  "world_insert_fault = world_ok\<lparr>insert_analysis_fault := True\<rparr>"

definition article_2 :: article where
  "article_2 = \<lparr>a_id = 2, url = url_2, title = ''Test Title'',
     publication_date = ''2024-12-01'', body_text = text_ab\<rparr>"

text \<open>A page with a site heading before the heading of the article.\<close>

definition page_two_titles :: "node list" where
  "page_two_titles =
     [Element ''h1'' [''site''] [Text ''Bizcommunity''],
      Element ''h1'' [] [Text ''Test Title''],
      Element ''span'' [''d-ib'', ''mr-05''] [Text ''2024-12-01''],
      Element ''div'' [''kInstance-Body'', ''instance-box-mb'']
        [Element ''p'' [] [Text ''A.''], Element ''p'' [] [Text ''B.'']]]"

section \<open>Facts about the library functions\<close>

lemma fold_max_bounds:
  "m \<le> fold max ids (m::nat) \<and> (\<forall>x \<in> set ids. x \<le> fold max ids m)"
proof (induction ids arbitrary: m)
  case Nil
  show ?case by simp
next
  case (Cons a ids)
  from Cons.IH[of "max a m"] show ?case by auto
qed

lemma next_id_fresh: "next_id ids \<notin> set ids"
proof
  assume "next_id ids \<in> set ids"
  with fold_max_bounds[of 0 ids] have "next_id ids \<le> fold max ids 0" by blast
  then show False by (simp add: next_id_def)
qed

lemma find_Some_set: "List.find P xs = Some x \<Longrightarrow> x \<in> set xs \<and> P x"
  by (induction xs) (auto split: if_splits)

lemma find_append_new:
  "u \<notin> set (map url xs) \<Longrightarrow>
     List.find (\<lambda>a. url a = u) (xs @ [x]) = (if url x = u then Some x else None)"
  by (induction xs) auto

lemma dropWhile_all: "\<forall>c \<in> set l. P c \<Longrightarrow> dropWhile P (l @ xs) = dropWhile P xs"
  by (induction l) auto

text \<open>Stripping removes the padding around a text that begins and ends with ink.\<close>

lemma strip_padded:
  assumes "\<forall>c \<in> set l. isspace c" and "\<forall>c \<in> set r. isspace c"
    and "core \<noteq> []" and "\<not> isspace (hd core)" and "\<not> isspace (last core)"
  shows "strip (l @ core @ r) = core"
proof -
  from assms(3,4) have a: "dropWhile isspace (core @ r) = core @ r"
    by (cases core) auto
  from assms(3,5) have b: "dropWhile isspace (rev core) = rev core"
    by (cases "rev core") (auto simp: last_rev[symmetric] simp del: last_rev)
  have "strip (l @ core @ r) = rev (dropWhile isspace (rev (core @ r)))"
    using assms(1) a by (simp add: strip_def dropWhile_all)
  also have "\<dots> = rev (dropWhile isspace (rev r @ rev core))" by simp
  also have "\<dots> = rev (dropWhile isspace (rev core))"
    using assms(2) by (simp add: dropWhile_all)
  finally show ?thesis using b by simp
qed

lemma distinct_filter_le1:
  "distinct (map f xs) \<Longrightarrow> length (filter (\<lambda>x. f x = i) xs) \<le> Suc 0"
  by (induction xs) (auto simp: filter_empty_conv image_iff)

section \<open>What a statement that succeeded tells\<close>

lemma add_commit_article_Committed:
  "add_commit_article w s u t p b = Committed i s' \<Longrightarrow>
     i = next_id (map a_id (articles s)) \<and> \<not> needs_rollback s
     \<and> u \<notin> set (map url (articles s))
     \<and> s' = s\<lparr>articles := articles s @
          [\<lparr>a_id = i, url = u, title = t, publication_date = p, body_text = b\<rparr>]\<rparr>"
  by (auto simp: add_commit_article_def Let_def split: if_splits)

lemma add_commit_article_Failed:
  "add_commit_article w s u t p b = FlushFailed s' \<Longrightarrow> s' = s\<lparr>needs_rollback := True\<rparr>"
  by (auto simp: add_commit_article_def Let_def split: if_splits)

lemma add_commit_analysis_Committed:
  "add_commit_analysis w s i c e m = Committed j s' \<Longrightarrow>
     j = next_id (map r_id (analysis_results s)) \<and> \<not> needs_rollback s
     \<and> i \<notin> set (map article_id (analysis_results s))
     \<and> s' = s\<lparr>analysis_results := analysis_results s @
          [\<lparr>r_id = j, article_id = i, company_name = c, ceo_name = e, summary = m\<rparr>]\<rparr>"
  by (auto simp: add_commit_analysis_def Let_def split: if_splits)

lemma add_commit_analysis_Failed:
  "add_commit_analysis w s i c e m = FlushFailed s' \<Longrightarrow> s' = s\<lparr>needs_rollback := True\<rparr>"
  by (auto simp: add_commit_analysis_def Let_def split: if_splits)

lemma query_article_Some:
  "query_article w s u = Returned (Some a) \<Longrightarrow>
     \<not> needs_rollback s \<and> a \<in> set (articles s) \<and> url a = u"
  by (auto simp: query_article_def split: if_splits dest: find_Some_set)

lemma query_article_found:
  "query_article w s u = Returned (Some a) \<Longrightarrow>
     List.find (\<lambda>a. url a = u) (articles s) = Some a"
  by (auto simp: query_article_def split: if_splits)

lemma query_article_None:
  "query_article w s u = Returned None \<Longrightarrow>
     \<not> needs_rollback s \<and> u \<notin> set (map url (articles s))"
  by (auto simp: query_article_def find_None_iff split: if_splits)

lemma query_analysis_Some:
  "query_analysis w s i = Returned (Some r) \<Longrightarrow>
     \<not> needs_rollback s \<and> r \<in> set (analysis_results s) \<and> article_id r = i"
  by (auto simp: query_analysis_def split: if_splits dest: find_Some_set)

lemma query_analysis_None:
  "query_analysis w s i = Returned None \<Longrightarrow>
     \<not> needs_rollback s \<and> i \<notin> set (map article_id (analysis_results s))"
  by (auto simp: query_analysis_def find_None_iff split: if_splits)

section \<open>One call\<close>

lemma extraction_None_iff:
  "extraction soup = None \<longleftrightarrow>
     soup_find ''h1'' None (soup_nodes soup) = None
     \<or> soup_find ''span'' (Some ''d-ib mr-05'') (soup_nodes soup) = None
     \<or> soup_find ''div'' (Some ''kInstance-Body instance-box-mb'') (soup_nodes soup) = None
     \<or> (\<exists>body_div.
           soup_find ''div'' (Some ''kInstance-Body instance-box-mb'') (soup_nodes soup)
             = Some body_div
           \<and> find_all ''p'' None (descendants body_div) = [])"
  by (auto simp: extraction_def Let_def split: option.splits)

lemma linked_step: "linked s \<Longrightarrow> linked (snd (fetch_and_store_article w u s))"
  unfolding fetch_and_store_article_def
  by (auto simp: linked_def rollback_def
      split: http_result.splits option.splits db.splits commit_result.splits prod.splits
      dest!: add_commit_article_Committed add_commit_article_Failed
        add_commit_analysis_Committed add_commit_analysis_Failed
        query_article_Some query_article_None query_analysis_Some query_analysis_None)

lemma articles_step: "prefix (articles s) (articles (snd (fetch_and_store_article w u s)))"
  unfolding fetch_and_store_article_def
  by (auto simp: rollback_def
      split: http_result.splits option.splits db.splits commit_result.splits prod.splits
      dest!: add_commit_article_Committed add_commit_article_Failed
        add_commit_analysis_Committed add_commit_analysis_Failed)

text \<open>A call that returns an identity leaves the article with that identity in the store.\<close>

lemma fetch_Some:
  assumes "fetch_and_store_article w u s = (Some i, s1)"
  shows "\<not> needs_rollback s1
       \<and> (\<exists>a. List.find (\<lambda>a. url a = u) (articles s1) = Some a \<and> a_id a = i)"
  using assms unfolding fetch_and_store_article_def
  by (auto simp: rollback_def find_append_new
      split: http_result.splits option.splits db.splits commit_result.splits prod.splits
        if_splits
      dest!: add_commit_article_Committed add_commit_article_Failed
        add_commit_analysis_Committed add_commit_analysis_Failed
        query_article_None
      dest: query_article_found query_article_Some)

text \<open>A call for a URL whose article and analysis result are both stored.\<close>

lemma fetch_processed:
  assumes "List.find (\<lambda>a. url a = u) (articles s) = Some a"
    and "a_id a \<in> set (map article_id (analysis_results s))"
  shows "fetch_and_store_article w u s =
     (if (\<exists>status soup. requests_get w u = Response status soup
            \<and> \<not> raises_for_status status \<and> extraction soup \<noteq> None)
         \<and> \<not> needs_rollback s \<and> \<not> query_article_fault w \<and> \<not> query_analysis_fault w
      then Some (a_id a) else None, s)"
proof -
  from assms(2) obtain r where
    "List.find (\<lambda>r. article_id r = a_id a) (analysis_results s) = Some r"
    by (cases "List.find (\<lambda>r. article_id r = a_id a) (analysis_results s)")
       (auto simp: find_None_iff)
  with assms(1) show ?thesis
    by (auto simp: fetch_and_store_article_def query_article_def query_analysis_def
        split: http_result.splits option.splits)
qed

lemma linked_reachable: "reachable s \<Longrightarrow> linked s"
proof (induction rule: reachable.induct)
  case reachable_init
  show ?case by (simp add: linked_def init_session_def)
next
  case (reachable_step s w u)
  then show ?case by (simp add: linked_step)
qed

section \<open>The example worlds, evaluated\<close>

lemma extraction_page_ab:
  "extraction page_ab = Some (''Test Title'', ''2024-12-01'', text_ab)"
  by (simp add: text_ab_def page_ab_def extraction_def soup_find_def find_all_def soup_nodes_def
      get_text_def strip_def isspace_def)

lemma json_match_reply_acme: "json_match (strip reply_acme) = Some json_acme"
  by (simp add: reply_acme_def json_acme_def quoted_def json_match_def strip_def isspace_def)

lemma world_ok_simps:
  "requests_get world_ok u = Response 200 page_ab"
  "requests_post world_ok p = PostResponse 200 (Some reply_acme)"
  "json_loads world_ok = loads_example"
  "query_article_fault world_ok = False"
  "query_analysis_fault world_ok = False"
  "insert_article_fault world_ok = False"
  "insert_analysis_fault world_ok = False"
  by (simp_all add: world_ok_def)

lemma analyze_article_update:
  "analyze_article (w\<lparr>requests_get := g\<rparr>) body = analyze_article w body"
  "analyze_article (w\<lparr>query_article_fault := b\<rparr>) body = analyze_article w body"
  "analyze_article (w\<lparr>query_analysis_fault := b\<rparr>) body = analyze_article w body"
  "analyze_article (w\<lparr>insert_article_fault := b\<rparr>) body = analyze_article w body"
  "analyze_article (w\<lparr>insert_analysis_fault := b\<rparr>) body = analyze_article w body"
  by (simp_all add: analyze_article_def split: post_result.splits option.splits)

lemma analyze_world_ok: "analyze_article world_ok body = Some dict_acme"
  by (simp add: analyze_article_def world_ok_simps raises_for_status_def
      json_match_reply_acme loads_example_def)

lemma first_run: "fetch_and_store_article world_ok url_1 init_session = (Some 1, store_done)"
  by (simp add: fetch_and_store_article_def world_ok_simps analyze_world_ok
      extraction_page_ab raises_for_status_def init_session_def
      query_article_def add_commit_article_def add_commit_analysis_def next_id_def
      dict_get_def dict_acme_def store_done_def article_1_def analysis_1_def)

lemma world_changed_simps:
  "requests_get world_changed u = Response 200 page_ab"
  "json_loads world_changed = loads_example"
  "query_article_fault world_changed = False"
  "query_analysis_fault world_changed = False"
  "insert_article_fault world_changed = False"
  "insert_analysis_fault world_changed = False"
  by (simp_all add: world_changed_def world_ok_simps)

lemma world_empty_object_simps:
  "requests_get world_empty_object u = Response 200 page_ab"
  "query_article_fault world_empty_object = False"
  "query_analysis_fault world_empty_object = False"
  "insert_article_fault world_empty_object = False"
  "insert_analysis_fault world_empty_object = False"
  by (simp_all add: world_empty_object_def world_ok_simps)

lemma world_ceo_only_simps:
  "requests_get world_ceo_only u = Response 200 page_ab"
  "query_article_fault world_ceo_only = False"
  "query_analysis_fault world_ceo_only = False"
  "insert_article_fault world_ceo_only = False"
  "insert_analysis_fault world_ceo_only = False"
  by (simp_all add: world_ceo_only_def world_ok_simps)

lemma json_match_oldco: "json_match (strip json_oldco) = Some json_oldco"
  by (simp add: json_oldco_def quoted_def json_match_def strip_def isspace_def)

lemma analyze_changed_old:
  "analyze_article world_changed ''Old text.'' = Some [(''company_name'', JString ''OldCo'')]"
  by (simp add: analyze_article_def world_changed_def world_ok_simps raises_for_status_def
      json_match_oldco loads_example_def)
     (simp add: json_oldco_def json_acme_def json_ceo_only_def quoted_def)

lemma analyze_changed_new: "analyze_article world_changed text_ab = Some dict_acme"
  by (simp add: analyze_article_def world_changed_def world_ok_simps raises_for_status_def
      json_match_reply_acme loads_example_def prompt_def text_ab_def)

lemma analyze_empty_object: "analyze_article world_empty_object body = Some []"
  by (simp add: analyze_article_def world_empty_object_def world_ok_simps raises_for_status_def
      json_match_def strip_def isspace_def loads_example_def)
     (simp add: json_acme_def json_ceo_only_def json_oldco_def quoted_def)

lemma json_match_ceo_only: "json_match (strip json_ceo_only) = Some json_ceo_only"
  by (simp add: json_ceo_only_def quoted_def json_match_def strip_def isspace_def)

lemma analyze_ceo_only: "analyze_article world_ceo_only body = Some [(''ceo_name'', JString ''Jane Doe'')]"
  by (simp add: analyze_article_def world_ceo_only_def world_ok_simps raises_for_status_def
      json_match_ceo_only loads_example_def)
     (simp add: json_acme_def json_ceo_only_def quoted_def)

section \<open>The invariant of the store\<close>

text \<open>
  C4. In every state that a sequence of calls of \<open>fetch_and_store_article\<close> reaches
  from the empty store, every analysis result refers to a stored article, and every
  article has at most one analysis result.
\<close>

theorem store_invariant:
  assumes "reachable s"
  shows "(\<forall>r \<in> set (analysis_results s). \<exists>a \<in> set (articles s). a_id a = article_id r)
       \<and> (\<forall>a \<in> set (articles s).
            length (filter (\<lambda>r. article_id r = a_id a) (analysis_results s)) \<le> 1)"
proof -
  from assms have l: "linked s" by (rule linked_reachable)
  from l have "distinct (map article_id (analysis_results s))" by (simp add: linked_def)
  then have one: "length (filter (\<lambda>r. article_id r = i) (analysis_results s)) \<le> 1" for i
    by (simp add: distinct_filter_le1)
  from l have "\<forall>r \<in> set (analysis_results s). \<exists>a \<in> set (articles s). a_id a = article_id r"
    by (fastforce simp: linked_def)
  with one show ?thesis by simp
qed

theorem store_invariant_witness:
  "reachable store_done
   \<and> articles store_done = [article_1] \<and> analysis_results store_done = [analysis_1]
   \<and> a_id article_1 = article_id analysis_1
   \<and> length (filter (\<lambda>r. article_id r = a_id article_1) (analysis_results store_done)) \<le> 1"
proof -
  have r: "reachable store_done"
    using reachable_step[OF reachable_init, of world_ok url_1] by (simp add: first_run)
  from store_invariant[OF r] r show ?thesis
    by (simp add: store_done_def article_1_def analysis_1_def)
qed

section \<open>Articles are never changed\<close>

text \<open>
  C8. An article, once created, is never updated and never deleted by a later run of
  \<open>fetch_and_store_article\<close>, whatever the page holds when it is fetched again: after
  any sequence of calls, in any worlds, the article table begins with the rows it had,
  unchanged and in place.
\<close>

theorem articles_never_change: "prefix (articles s) (articles (snd (main_loop runs s)))"
proof (induction runs arbitrary: s)
  case Nil
  show ?case by simp
next
  case (Cons run runs)
  obtain w u where run: "run = (w, u)" by (cases run)
  have "prefix (articles s) (articles (snd (fetch_and_store_article w u s)))"
    by (rule articles_step)
  also have "prefix \<dots> (articles (snd (main_loop runs (snd (fetch_and_store_article w u s)))))"
    by (rule Cons.IH)
  finally show ?case by (simp add: run split_def Let_def)
qed

section \<open>Extraction failures\<close>

text \<open>
  C5, as the specification states it, with "no paragraph children" read as written: on
  \<open>page_nested\<close> the body container has no paragraph among its children, and yet the
  article is extracted and stored, since \<open>find_all\<close> looks at every descendant.
\<close>

theorem paragraph_children_counterexample:
  "soup_find ''div'' (Some ''kInstance-Body instance-box-mb'') (soup_nodes page_nested)
     = Some (Element ''div'' [''kInstance-Body'', ''instance-box-mb'']
              [Element ''div'' [''wrap''] [Element ''p'' [] [Text ''Deep.'']]])
   \<and> find_all ''p'' None [Element ''div'' [''wrap''] [Element ''p'' [] [Text ''Deep.'']]] = []
   \<and> fetch_and_store_article world_nested url_1 init_session =
       (Some 1, \<lparr>articles = [\<lparr>a_id = 1, url = url_1, title = ''Test Title'',
                   publication_date = ''2024-12-01'', body_text = ''Deep.''\<rparr>],
                 analysis_results = [analysis_1], needs_rollback = False\<rparr>)"
  by (simp add: fetch_and_store_article_def world_nested_def world_ok_simps analyze_world_ok
      analyze_article_update
      page_nested_def extraction_def soup_find_def find_all_def soup_nodes_def
      get_text_def strip_def isspace_def
      raises_for_status_def init_session_def
      query_article_def add_commit_article_def add_commit_analysis_def next_id_def
      dict_get_def dict_acme_def analysis_1_def)

text \<open>
  C5, amended. When the fetched page has no \<open>h1\<close>, or no date span, or no body
  container, or its first body container has no paragraph below it at any depth,
  extraction fails, the call returns \<open>None\<close> and the store is as it was: no article
  row is created and nothing is stored.
\<close>

theorem missing_selector_stores_nothing:
  assumes "requests_get w u = Response status soup"
    and "soup_find ''h1'' None (soup_nodes soup) = None
       \<or> soup_find ''span'' (Some ''d-ib mr-05'') (soup_nodes soup) = None
       \<or> soup_find ''div'' (Some ''kInstance-Body instance-box-mb'') (soup_nodes soup) = None
       \<or> (\<exists>body_div.
             soup_find ''div'' (Some ''kInstance-Body instance-box-mb'') (soup_nodes soup)
               = Some body_div
             \<and> find_all ''p'' None (descendants body_div) = [])"
  shows "extraction soup = None \<and> fetch_and_store_article w u s = (None, s)"
proof -
  from assms(2) have "extraction soup = None" by (simp only: extraction_None_iff)
  with assms(1) show ?thesis by (simp add: fetch_and_store_article_def)
qed

theorem missing_selector_stores_nothing_witness:
  "requests_get world_no_date url_2 = Response 200 page_no_date
   \<and> soup_find ''span'' (Some ''d-ib mr-05'') (soup_nodes page_no_date) = None
   \<and> extraction page_no_date = None
   \<and> fetch_and_store_article world_no_date url_2 store_done = (None, store_done)"
  using missing_selector_stores_nothing[of world_no_date url_2 200 page_no_date store_done]
  by (simp add: world_no_date_def page_no_date_def soup_find_def find_all_def soup_nodes_def)

text \<open>
  C7. The fetch and the extraction come before the look-up in the store. So for a URL
  whose article is stored, with or without analysis, a failed request, an error status
  or a page on which extraction fails makes the call return \<open>None\<close> and leave the
  store as it was: no analysis is attached and the identity of the stored article is
  not returned.
\<close>

theorem refetch_failure_returns_none:
  assumes "List.find (\<lambda>a. url a = u) (articles s) = Some existing_article"
    and "requests_get w u = RequestFailed
       \<or> (\<exists>status soup. requests_get w u = Response status soup
             \<and> (raises_for_status status \<or> extraction soup = None))"
  shows "fetch_and_store_article w u s = (None, s)"
  using assms(2) by (auto simp: fetch_and_store_article_def)

theorem refetch_failure_returns_none_witness:
  "List.find (\<lambda>a. url a = url_1) (articles store_done) = Some article_1
   \<and> requests_get world_404 url_1 = Response 404 []
   \<and> raises_for_status 404
   \<and> fetch_and_store_article world_404 url_1 store_done = (None, store_done)"
  using refetch_failure_returns_none[of url_1 store_done article_1 world_404]
  by (simp add: world_404_def store_done_def article_1_def raises_for_status_def)

section \<open>Analysis failures\<close>

text \<open>
  C6. For a URL that is not in the store, on a session that accepts statements, when
  extraction succeeds and the reply of the service has no braces span, or has one that
  \<open>json.loads\<close> rejects, the article row is inserted, no analysis result is created,
  and the call returns the identity of the new article.
\<close>

theorem unparsable_reply_keeps_article:
  assumes "\<not> needs_rollback s" and "\<not> query_article_fault w" and "\<not> insert_article_fault w"
    and "u \<notin> set (map url (articles s))"
    and "requests_get w u = Response status soup" and "\<not> raises_for_status status"
    and "extraction soup = Some (ttl, pub_date, body)"
    and "requests_post w (prompt body) = PostResponse pstatus (Some reply)"
    and "json_match (strip reply) = None
       \<or> (\<exists>json_str. json_match (strip reply) = Some json_str \<and> json_loads w json_str = None)"
  shows "fetch_and_store_article w u s =
     (Some (next_id (map a_id (articles s))),
      s\<lparr>articles := articles s @
          [\<lparr>a_id = next_id (map a_id (articles s)), url = u, title = ttl,
            publication_date = pub_date, body_text = body\<rparr>]\<rparr>)"
proof -
  from assms(8,9) have a: "analyze_article w body = None"
    by (auto simp: analyze_article_def)
  from assms(1,2,4) have q: "query_article w s u = Returned None"
    by (auto simp: query_article_def find_None_iff)
  from assms(1,3,4) have c: "add_commit_article w s u ttl pub_date body =
     Committed (next_id (map a_id (articles s)))
      (s\<lparr>articles := articles s @
          [\<lparr>a_id = next_id (map a_id (articles s)), url = u, title = ttl,
            publication_date = pub_date, body_text = body\<rparr>]\<rparr>)"
    by (simp add: add_commit_article_def Let_def)
  from assms(5,6,7) a q c show ?thesis by (simp add: fetch_and_store_article_def)
qed

theorem unparsable_reply_keeps_article_witness:
  "json_match (strip ''I cannot help with that.'') = None
   \<and> fetch_and_store_article world_no_json url_1 init_session =
       (Some 1, \<lparr>articles = [article_1], analysis_results = [], needs_rollback = False\<rparr>)"
  using unparsable_reply_keeps_article[of init_session world_no_json url_1 200 page_ab
      "''Test Title''" "''2024-12-01''" text_ab 200
      "''I cannot help with that.''"]
  by (simp add: world_no_json_def world_ok_simps init_session_def raises_for_status_def
      extraction_page_ab json_match_def strip_def isspace_def next_id_def article_1_def)

section \<open>Running again\<close>

text \<open>
  C3, as the specification states it: \<open>url_1\<close> is fully processed by the first run,
  which returns 1; when the page has gone, the second run returns \<open>None\<close>, not 1.
\<close>

theorem rerun_counterexample:
  "fetch_and_store_article world_ok url_1 init_session = (Some 1, store_done)
   \<and> articles store_done = [article_1] \<and> analysis_results store_done = [analysis_1]
   \<and> fetch_and_store_article world_404 url_1 store_done = (None, store_done)"
  by (simp add: first_run)
     (simp add: fetch_and_store_article_def world_404_def raises_for_status_def
        store_done_def)

text \<open>
  C3, amended. When a run for a URL has returned an identity and the analysis result
  of that article is stored, a further run for the URL, in any world, leaves the store
  exactly as it is: no row is added or changed. It returns the same identity when its
  own fetch, extraction and look-ups succeed, and \<open>None\<close> otherwise.
\<close>

theorem rerun_is_noop:
  assumes "fetch_and_store_article w1 u s = (Some i, s1)"
    and "i \<in> set (map article_id (analysis_results s1))"
  shows "fetch_and_store_article w2 u s1 =
     (if (\<exists>status soup. requests_get w2 u = Response status soup
            \<and> \<not> raises_for_status status \<and> extraction soup \<noteq> None)
         \<and> \<not> query_article_fault w2 \<and> \<not> query_analysis_fault w2
      then Some i else None, s1)"
proof -
  from fetch_Some[OF assms(1)] obtain a where
    h: "\<not> needs_rollback s1" "List.find (\<lambda>a. url a = u) (articles s1) = Some a" "a_id a = i"
    by blast
  from fetch_processed[OF h(2), of w2] assms(2) h(1,3) show ?thesis by simp
qed

theorem rerun_is_noop_witness:
  "fetch_and_store_article world_ok url_1 init_session = (Some 1, store_done)
   \<and> 1 \<in> set (map article_id (analysis_results store_done))
   \<and> fetch_and_store_article world_ok url_1 store_done = (Some 1, store_done)"
  using rerun_is_noop[OF first_run, of world_ok]
  by (simp add: first_run store_done_def analysis_1_def world_ok_simps raises_for_status_def
      extraction_page_ab)

section \<open>The extraction example\<close>

text \<open>
  C10, as the specification states it: \<open>page_two_titles\<close> contains the heading
  "Test Title", a date span and a body container with the two paragraphs, and the
  title extracted is that of the heading before it.
\<close>

theorem first_title_counterexample:
  "Element ''h1'' [] [Text ''Test Title''] \<in> set (soup_nodes page_two_titles)
   \<and> extraction page_two_titles = Some (''Bizcommunity'', ''2024-12-01'', text_ab)"
  by (simp add: page_two_titles_def text_ab_def extraction_def soup_find_def find_all_def
      soup_nodes_def get_text_def strip_def isspace_def)

text \<open>
  C10, amended. For every page whose first \<open>h1\<close> is the heading "Test Title", which
  has a date span, and whose first body container has below it exactly two
  paragraphs, with the texts "A." and "B." and any white space around them,
  extraction yields the title "Test Title" and the body "A.", a blank line, "B.".
\<close>

theorem extraction_example:
  assumes "soup_find ''h1'' None (soup_nodes soup)
             = Some (Element ''h1'' cs [Text ''Test Title''])"
    and "soup_find ''span'' (Some ''d-ib mr-05'') (soup_nodes soup) = Some pub_date_tag"
    and "soup_find ''div'' (Some ''kInstance-Body instance-box-mb'') (soup_nodes soup)
           = Some body_div"
    and "find_all ''p'' None (descendants body_div) =
           [Element ''p'' cs1 [Text (l1 @ ''A.'' @ r1)],
            Element ''p'' cs2 [Text (l2 @ ''B.'' @ r2)]]"
    and "\<forall>c \<in> set (l1 @ r1 @ l2 @ r2). isspace c"
  shows "extraction soup =
           Some (''Test Title'', get_text pub_date_tag,
                 ''A.'' @ [CHR 0x0A, CHR 0x0A] @ ''B.'')"
proof -
  have t: "get_text (Element ''h1'' cs [Text ''Test Title'']) = ''Test Title''"
    by (simp add: get_text_def strip_def isspace_def)
  have "strip (l1 @ ''A.'' @ r1) = ''A.''"
    using assms(5) by (intro strip_padded) (simp_all add: isspace_def)
  moreover have "strip (l2 @ ''B.'' @ r2) = ''B.''"
    using assms(5) by (intro strip_padded) (simp_all add: isspace_def)
  ultimately have p: "get_text (Element ''p'' cs1 [Text (l1 @ ''A.'' @ r1)]) = ''A.''"
      "get_text (Element ''p'' cs2 [Text (l2 @ ''B.'' @ r2)]) = ''B.''"
    by (simp_all add: get_text_def)
  from assms(1-4) t p show ?thesis by (simp add: extraction_def)
qed

theorem extraction_example_witness:
  "isspace CHR '' ''
   \<and> extraction page_ab =
       Some (''Test Title'', ''2024-12-01'', ''A.'' @ [CHR 0x0A, CHR 0x0A] @ ''B.'')"
proof -
  have sp: "isspace CHR '' ''" by (simp add: isspace_def)
  have h1: "soup_find ''h1'' None (soup_nodes page_ab)
     = Some (Element ''h1'' [] [Text ''Test Title''])"
    by (simp add: page_ab_def soup_find_def find_all_def soup_nodes_def)
  have h2: "soup_find ''span'' (Some ''d-ib mr-05'') (soup_nodes page_ab)
     = Some (Element ''span'' [''d-ib'', ''mr-05''] [Text '' 2024-12-01 ''])"
    by (simp add: page_ab_def soup_find_def find_all_def soup_nodes_def)
  have h3: "soup_find ''div'' (Some ''kInstance-Body instance-box-mb'') (soup_nodes page_ab)
     = Some (Element ''div'' [''kInstance-Body'', ''instance-box-mb'']
        [Element ''p'' [] [Text ''A.''], Text [CHR 0x0A], Element ''p'' [] [Text '' B. '']])"
    by (simp add: page_ab_def soup_find_def find_all_def soup_nodes_def)
  have h4: "find_all ''p'' None
       (descendants (Element ''div'' [''kInstance-Body'', ''instance-box-mb'']
          [Element ''p'' [] [Text ''A.''], Text [CHR 0x0A], Element ''p'' [] [Text '' B. '']]))
     = [Element ''p'' [] [Text ([] @ ''A.'' @ [])],
        Element ''p'' [] [Text ('' '' @ ''B.'' @ '' '')]]"
    by (simp add: find_all_def)
  have h5: "\<forall>c \<in> set ([] @ [] @ '' '' @ '' ''). isspace c" by (simp add: isspace_def)
  from extraction_example[OF h1 h2 h3 h4 h5] sp show ?thesis
    by (simp add: get_text_def strip_def isspace_def)
qed

section \<open>An article that is stored without analysis\<close>

text \<open>
  C1, as the specification states it. The article of \<open>url_1\<close> is stored with the body
  "Old text." and has no analysis result; the page now holds another text. The
  analyzer, asked about the stored body, would answer OldCo; the analysis result that
  is attached says Acme, the answer for the text just fetched. And when the page has
  gone, the call returns \<open>None\<close>, not the identity of the stored article.
\<close>

theorem stored_body_counterexample:
  "body_text article_old = ''Old text.''
   \<and> analyze_article world_changed ''Old text.'' = Some [(''company_name'', JString ''OldCo'')]
   \<and> fetch_and_store_article world_changed url_1 store_old =
       (Some 1, store_old\<lparr>analysis_results := [analysis_1]\<rparr>)
   \<and> company_name analysis_1 = JString ''Acme''
   \<and> fetch_and_store_article world_404 url_1 store_old = (None, store_old)"
proof -
  have a: "fetch_and_store_article world_changed url_1 store_old =
       (Some 1, store_old\<lparr>analysis_results := [analysis_1]\<rparr>)"
    by (simp add: fetch_and_store_article_def world_changed_simps analyze_changed_new
      extraction_page_ab raises_for_status_def store_old_def article_old_def
      query_article_def query_analysis_def add_commit_analysis_def next_id_def
      dict_get_def dict_acme_def analysis_1_def)
  have b: "fetch_and_store_article world_404 url_1 store_old = (None, store_old)"
    by (simp add: fetch_and_store_article_def world_404_def raises_for_status_def)
  from a b analyze_changed_old show ?thesis
    by (simp add: article_old_def analysis_1_def)
qed

text \<open>
  C1, amended. For every URL whose article is stored without an analysis result, when
  the fetch and the extraction of this run succeed and the session accepts the two
  look-ups, \<open>fetch_and_store_article\<close> runs the analyzer on the body text just
  extracted (not on the stored one). When the analyzer gives nothing or an empty
  object, the call returns the identity of the stored article and leaves the store
  unchanged. When the analyzer gives a non-empty object and the insert is accepted,
  the call attaches one new analysis result to that article and returns the identity
  of the stored article. Nothing is stated here for an insert that fails: that case is
  the one of C2.
\<close>

theorem existing_article_gets_analysis:
  assumes "\<not> needs_rollback s" and "\<not> query_article_fault w" and "\<not> query_analysis_fault w"
    and "requests_get w u = Response status soup" and "\<not> raises_for_status status"
    and "extraction soup = Some (ttl, pub_date, body)"
    and "List.find (\<lambda>a. url a = u) (articles s) = Some existing_article"
    and "List.find (\<lambda>r. article_id r = a_id existing_article) (analysis_results s) = None"
  shows "(analyze_article w body = None \<or> analyze_article w body = Some []
            \<longrightarrow> fetch_and_store_article w u s = (Some (a_id existing_article), s))
       \<and> (\<forall>analysis. analyze_article w body = Some analysis \<and> analysis \<noteq> []
            \<and> \<not> insert_analysis_fault w
            \<and> bindable (dict_get analysis ''company_name'')
            \<and> bindable (dict_get analysis ''ceo_name'')
            \<and> bindable (dict_get analysis ''summary'')
            \<longrightarrow> fetch_and_store_article w u s =
                  (Some (a_id existing_article),
                   s\<lparr>analysis_results := analysis_results s @
                      [\<lparr>r_id = next_id (map r_id (analysis_results s)),
                        article_id = a_id existing_article,
                        company_name = dict_get analysis ''company_name'',
                        ceo_name = dict_get analysis ''ceo_name'',
                        summary = dict_get analysis ''summary''\<rparr>]\<rparr>))"
proof -
  from assms(1,2,7) have qa: "query_article w s u = Returned (Some existing_article)"
    by (simp add: query_article_def)
  from assms(1,3,8) have qr: "query_analysis w s (a_id existing_article) = Returned None"
    by (simp add: query_analysis_def)
  from assms(8) have fresh: "a_id existing_article \<notin> set (map article_id (analysis_results s))"
    by (auto simp: find_None_iff)
  from assms(4,5,6) qa qr fresh assms(1) show ?thesis
    by (auto simp: fetch_and_store_article_def add_commit_analysis_def Let_def)
qed

theorem existing_article_gets_analysis_witness:
  "List.find (\<lambda>a. url a = url_1) (articles store_old) = Some article_old
   \<and> analyze_article world_ok text_ab = Some dict_acme
   \<and> fetch_and_store_article world_ok url_1 store_old =
       (Some 1, store_old\<lparr>analysis_results := [analysis_1]\<rparr>)"
proof -
  have f: "List.find (\<lambda>a. url a = url_1) (articles store_old) = Some article_old"
    by (simp add: store_old_def article_old_def)
  have n: "List.find (\<lambda>r. article_id r = a_id article_old) (analysis_results store_old) = None"
    by (simp add: store_old_def)
  have h: "\<not> needs_rollback store_old" "\<not> query_article_fault world_ok"
    "\<not> query_analysis_fault world_ok" "requests_get world_ok url_1 = Response 200 page_ab"
    "\<not> raises_for_status 200"
    by (simp_all add: store_old_def world_ok_simps raises_for_status_def)
  from existing_article_gets_analysis[OF h extraction_page_ab f n] f
  show ?thesis
    by (simp add: analyze_world_ok world_ok_simps dict_acme_def dict_get_def
        store_old_def article_old_def analysis_1_def next_id_def)
qed

section \<open>A failed insert\<close>

text \<open>
  C2. On the path of an article that is already stored, a failed insert of the
  analysis result is caught without \<open>session.rollback()\<close>: the call returns \<open>None\<close>
  and leaves the session waiting for a rollback, so the call for the next URL, which
  would have stored article 2, fails at its first query. On the path of a new article
  the same failure is followed by the rollback, and the session stays usable.
\<close>

theorem missing_rollback_poisons_session:
  "fetch_and_store_article world_insert_fault url_1 store_old =
     (None, store_old\<lparr>needs_rollback := True\<rparr>)
   \<and> fetch_and_store_article world_ok url_2 (store_old\<lparr>needs_rollback := True\<rparr>) =
     (None, store_old\<lparr>needs_rollback := True\<rparr>)
   \<and> fetch_and_store_article world_ok url_2 store_old =
     (Some 2, store_old\<lparr>articles := [article_old, article_2],
        analysis_results := [analysis_1\<lparr>article_id := 2\<rparr>]\<rparr>)
   \<and> main_loop [(world_insert_fault, url_1), (world_ok, url_2)] store_old =
     ([None, None], store_old\<lparr>needs_rollback := True\<rparr>)
   \<and> fetch_and_store_article world_insert_fault url_2 store_old =
     (None, store_old\<lparr>articles := [article_old, article_2]\<rparr>)"
proof -
  have a: "fetch_and_store_article world_insert_fault url_1 store_old =
     (None, store_old\<lparr>needs_rollback := True\<rparr>)"
    by (simp add: fetch_and_store_article_def world_insert_fault_def world_ok_simps
        analyze_world_ok analyze_article_update
        extraction_page_ab raises_for_status_def store_old_def article_old_def
        query_article_def query_analysis_def add_commit_analysis_def
        dict_get_def dict_acme_def)
  have b: "fetch_and_store_article world_ok url_2 (store_old\<lparr>needs_rollback := True\<rparr>) =
     (None, store_old\<lparr>needs_rollback := True\<rparr>)"
    by (simp add: fetch_and_store_article_def world_ok_simps
        extraction_page_ab raises_for_status_def query_article_def)
  have c: "fetch_and_store_article world_ok url_2 store_old =
     (Some 2, store_old\<lparr>articles := [article_old, article_2],
        analysis_results := [analysis_1\<lparr>article_id := 2\<rparr>]\<rparr>)"
    by (simp add: fetch_and_store_article_def world_ok_simps analyze_world_ok
        extraction_page_ab raises_for_status_def store_old_def article_old_def article_2_def
        url_1_def url_2_def
        query_article_def add_commit_article_def add_commit_analysis_def next_id_def
        dict_get_def dict_acme_def analysis_1_def)
  have d: "fetch_and_store_article world_insert_fault url_2 store_old =
     (None, store_old\<lparr>articles := [article_old, article_2]\<rparr>)"
    by (simp add: fetch_and_store_article_def world_insert_fault_def world_ok_simps
        analyze_world_ok analyze_article_update
        extraction_page_ab raises_for_status_def store_old_def article_old_def article_2_def
        url_1_def url_2_def rollback_def
        query_article_def add_commit_article_def add_commit_analysis_def next_id_def
        dict_get_def dict_acme_def)
  from a b c d show ?thesis by simp
qed

section \<open>Keys that the analyzer leaves out\<close>

text \<open>
  C9, as the specification states it: the object parsed from the reply is empty, so it
  leaves out all three keys, and no analysis result is stored at all, since an empty
  dict is false in \<open>if analysis:\<close>.
\<close>

theorem empty_object_counterexample:
  "analyze_article world_empty_object text_ab = Some []
   \<and> map_of ([] :: (string \<times> jvalue) list) ''company_name'' = None
   \<and> fetch_and_store_article world_empty_object url_1 init_session =
       (Some 1, \<lparr>articles = [article_1], analysis_results = [], needs_rollback = False\<rparr>)"
  by (simp add: fetch_and_store_article_def world_empty_object_simps analyze_empty_object
      extraction_page_ab raises_for_status_def init_session_def
      query_article_def add_commit_article_def next_id_def article_1_def)

text \<open>
  An object that is not empty, on a session and a store that accept the statements,
  for an article that has no analysis result yet.
\<close>

lemma omitted_keys_stored:
  assumes "linked s" and "\<not> needs_rollback s"
    and "\<not> query_article_fault w" and "\<not> query_analysis_fault w"
    and "\<not> insert_article_fault w" and "\<not> insert_analysis_fault w"
    and "requests_get w u = Response status soup" and "\<not> raises_for_status status"
    and "extraction soup = Some (ttl, pub_date, body)"
    and "analyze_article w body = Some analysis" and "analysis \<noteq> []"
    and "\<forall>a \<in> set (articles s).
           url a = u \<longrightarrow> a_id a \<notin> set (map article_id (analysis_results s))"
    and "bindable (dict_get analysis ''company_name'')"
    and "bindable (dict_get analysis ''ceo_name'')"
    and "bindable (dict_get analysis ''summary'')"
  shows "\<exists>r. analysis_results (snd (fetch_and_store_article w u s)) = analysis_results s @ [r]
           \<and> (map_of analysis ''company_name'' = None \<longrightarrow> company_name r = JString [])
           \<and> (map_of analysis ''ceo_name'' = None \<longrightarrow> ceo_name r = JString [])
           \<and> (map_of analysis ''summary'' = None \<longrightarrow> summary r = JString [])"
proof (cases "List.find (\<lambda>a. url a = u) (articles s)")
  case None
  with assms(2,3) have q: "query_article w s u = Returned None"
    by (simp add: query_article_def)
  from None have new: "u \<notin> set (map url (articles s))" by (auto simp: find_None_iff)
  let ?i = "next_id (map a_id (articles s))"
  from assms(1) have "?i \<notin> set (map article_id (analysis_results s))"
    using next_id_fresh[of "map a_id (articles s)"] by (auto simp: linked_def)
  with assms q new show ?thesis
    by (simp add: fetch_and_store_article_def add_commit_article_def add_commit_analysis_def
        Let_def dict_get_def)
next
  case (Some a)
  with assms(2,3) have q: "query_article w s u = Returned (Some a)"
    by (simp add: query_article_def)
  from Some assms(12) have fresh: "a_id a \<notin> set (map article_id (analysis_results s))"
    by (auto dest: find_Some_set)
  then have "List.find (\<lambda>r. article_id r = a_id a) (analysis_results s) = None"
    by (force simp: find_None_iff image_iff)
  with assms(2,4) have qr: "query_analysis w s (a_id a) = Returned None"
    by (simp add: query_analysis_def)
  from assms q qr fresh show ?thesis
    by (simp add: fetch_and_store_article_def add_commit_analysis_def Let_def dict_get_def)
qed

text \<open>An empty object, or no object: the table of analysis results stays as it is.\<close>

lemma empty_object_stores_nothing:
  assumes "requests_get w u = Response status soup"
    and "extraction soup = Some (ttl, pub_date, body)"
    and "analyze_article w body = None \<or> analyze_article w body = Some []"
  shows "analysis_results (snd (fetch_and_store_article w u s)) = analysis_results s"
  using assms
  by (auto simp: fetch_and_store_article_def rollback_def
      split: db.splits option.splits commit_result.splits
      dest!: add_commit_article_Committed add_commit_article_Failed)

text \<open>
  C9, amended. When the object parsed from the reply is empty, no analysis result is
  stored. When it is not empty, and the session and the store accept the statements,
  and the article has no analysis result yet, and the values of the keys that are
  present can be bound, one analysis result is stored, and each of its fields
  \<open>company_name\<close>, \<open>ceo_name\<close>, \<open>summary\<close> whose key the object leaves out is the
  empty string.
\<close>

theorem omitted_keys_default_empty:
  assumes "requests_get w u = Response status soup" and "\<not> raises_for_status status"
    and "extraction soup = Some (ttl, pub_date, body)"
    and "analyze_article w body = Some analysis"
  shows "(analysis = [] \<longrightarrow>
            analysis_results (snd (fetch_and_store_article w u s)) = analysis_results s)
       \<and> (analysis \<noteq> [] \<and> linked s \<and> \<not> needs_rollback s
            \<and> \<not> query_article_fault w \<and> \<not> query_analysis_fault w
            \<and> \<not> insert_article_fault w \<and> \<not> insert_analysis_fault w
            \<and> (\<forall>a \<in> set (articles s).
                  url a = u \<longrightarrow> a_id a \<notin> set (map article_id (analysis_results s)))
            \<and> bindable (dict_get analysis ''company_name'')
            \<and> bindable (dict_get analysis ''ceo_name'')
            \<and> bindable (dict_get analysis ''summary'')
          \<longrightarrow> (\<exists>r. analysis_results (snd (fetch_and_store_article w u s))
                       = analysis_results s @ [r]
                 \<and> (map_of analysis ''company_name'' = None \<longrightarrow> company_name r = JString [])
                 \<and> (map_of analysis ''ceo_name'' = None \<longrightarrow> ceo_name r = JString [])
                 \<and> (map_of analysis ''summary'' = None \<longrightarrow> summary r = JString [])))"
proof (intro conjI impI)
  assume "analysis = []"
  with assms(1,3,4) show
    "analysis_results (snd (fetch_and_store_article w u s)) = analysis_results s"
    by (simp add: empty_object_stores_nothing)
next
  assume h: "analysis \<noteq> [] \<and> linked s \<and> \<not> needs_rollback s
            \<and> \<not> query_article_fault w \<and> \<not> query_analysis_fault w
            \<and> \<not> insert_article_fault w \<and> \<not> insert_analysis_fault w
            \<and> (\<forall>a \<in> set (articles s).
                  url a = u \<longrightarrow> a_id a \<notin> set (map article_id (analysis_results s)))
            \<and> bindable (dict_get analysis ''company_name'')
            \<and> bindable (dict_get analysis ''ceo_name'')
            \<and> bindable (dict_get analysis ''summary'')"
  then show "\<exists>r. analysis_results (snd (fetch_and_store_article w u s))
                       = analysis_results s @ [r]
                 \<and> (map_of analysis ''company_name'' = None \<longrightarrow> company_name r = JString [])
                 \<and> (map_of analysis ''ceo_name'' = None \<longrightarrow> ceo_name r = JString [])
                 \<and> (map_of analysis ''summary'' = None \<longrightarrow> summary r = JString [])"
    using assms by (intro omitted_keys_stored) simp_all
qed

theorem omitted_keys_default_empty_witness:
  "analyze_article world_ceo_only text_ab = Some [(''ceo_name'', JString ''Jane Doe'')]
   \<and> map_of [(''ceo_name'', JString ''Jane Doe'')] ''company_name'' = None
   \<and> analysis_results (snd (fetch_and_store_article world_ceo_only url_1 init_session)) =
       [\<lparr>r_id = 1, article_id = 1, company_name = JString [],
         ceo_name = JString ''Jane Doe'', summary = JString []\<rparr>]
   \<and> analyze_article world_empty_object text_ab = Some []
   \<and> analysis_results (snd (fetch_and_store_article world_empty_object url_2 store_done)) =
       [analysis_1]"
proof -
  have g: "requests_get world_ceo_only url_1 = Response 200 page_ab"
    "requests_get world_empty_object url_2 = Response 200 page_ab"
    "\<not> raises_for_status 200"
    by (simp_all add: world_ceo_only_simps world_empty_object_simps raises_for_status_def)
  have full: "analysis_results (snd (fetch_and_store_article world_ceo_only url_1 init_session)) =
       [\<lparr>r_id = 1, article_id = 1, company_name = JString [],
         ceo_name = JString ''Jane Doe'', summary = JString []\<rparr>]"
    by (simp add: fetch_and_store_article_def world_ceo_only_simps analyze_ceo_only
      extraction_page_ab raises_for_status_def init_session_def
      query_article_def add_commit_article_def add_commit_analysis_def next_id_def
      dict_get_def)
  from omitted_keys_default_empty[OF g(1) g(3) extraction_page_ab analyze_ceo_only,
      of init_session]
    omitted_keys_default_empty[OF g(2) g(3) extraction_page_ab analyze_empty_object,
      of store_done]
    full
  show ?thesis
    by (simp add: analyze_ceo_only analyze_empty_object store_done_def)
qed

end
